theory Spec2Isabelle
  imports Main "HOL-Library.Sublist"
begin

section \<open>AgentVision: browser primitives, observation capture and the step budget\<close>

text \<open>
  The two scripts \<^verbatim>\<open>agent.py\<close> (shopping flow) and \<^verbatim>\<open>zepto.py\<close> (scraping flow)
  drive a browser through helium and selenium. Every interaction with the browser is a
  call into those libraries; the scripts themselves only sequence the calls, catch what
  they raise and build the returned message.

  The embedding keeps that split. The browser is an environment \<open>env\<close>: for every
  library call it gives the call's result (a value, or a raised exception) as a function
  of the calls made so far. The state threaded through the scripts is that list of calls,
  the \<open>trace\<close>, in the order they were made. A Python exception is a value \<open>Raise e\<close>;
  a \<^verbatim>\<open>try/except Exception\<close> is the combinator \<open>try_except\<close>.
\<close>

subsection \<open>Text\<close>

text \<open>
  A Python \<^verbatim>\<open>str\<close> is a \<open>string\<close>: a list of characters, each a code point below 256.
  The single and the double quote are written \<open>sq\<close> and \<open>dq\<close> inside longer texts.
\<close>

definition sq :: string where
  "sq = [CHR 0x27]"

definition dq :: string where
  "dq = [CHR 0x22]"

text \<open>\<^verbatim>\<open>sep.join(xs)\<close>.\<close>

fun join :: "string \<Rightarrow> string list \<Rightarrow> string" where
  "join sep [] = []"
| "join sep [x] = x"
| "join sep (x # y # ys) = x @ sep @ join sep (y # ys)"

text \<open>\<^verbatim>\<open>str.strip()\<close> removes the characters for which \<^verbatim>\<open>str.isspace()\<close> holds from
  both ends. Below 256 these are the code points 9 to 13, 28 to 32, 133 (next line) and
  160 (no-break space).\<close>

definition is_space :: "char \<Rightarrow> bool" where
  "is_space c = (c \<in> set [CHR 0x09, CHR 0x0A, CHR 0x0B, CHR 0x0C, CHR 0x0D,
                           CHR 0x1C, CHR 0x1D, CHR 0x1E, CHR 0x1F, CHR 0x20,
                           CHR 0x85, CHR 0xA0])"

definition strip :: "string \<Rightarrow> string" where
  "strip s = rev (dropWhile is_space (rev (dropWhile is_space s)))"

subsection \<open>Exceptions\<close>

text \<open>
  The classes the scripts can meet. \<^verbatim>\<open>except Exception\<close> catches every class that
  derives from \<^verbatim>\<open>Exception\<close>; \<^verbatim>\<open>KeyboardInterrupt\<close> and \<^verbatim>\<open>SystemExit\<close> derive from
  \<^verbatim>\<open>BaseException\<close> only and pass through it.
\<close>

datatype exn_class =
    TimeoutException
  | NoSuchElementException
  | ElementNotInteractableException
  | WebDriverException
  | LookupError
  | AttributeError
  | OtherException
  | KeyboardInterrupt
  | SystemExit

text \<open>An exception object: its class, its message and, as selenium's exceptions have
  them, the attributes \<^verbatim>\<open>screen\<close> and \<^verbatim>\<open>stacktrace\<close> (\<^verbatim>\<open>None\<close> for the exceptions of
  Python itself).\<close>

datatype exn =
  Exn (exn_class: exn_class) (msg: string) (screen: "string option")
      (stacktrace: "string list option")

fun is_Exception :: "exn \<Rightarrow> bool" where
  "is_Exception (Exn KeyboardInterrupt _ _ _) = False"
| "is_Exception (Exn SystemExit _ _ _) = False"
| "is_Exception (Exn _ _ _ _) = True"

text \<open>The classes of selenium, which all derive from \<^verbatim>\<open>WebDriverException\<close> and share
  its \<^verbatim>\<open>__str__\<close>.\<close>

fun is_selenium :: "exn_class \<Rightarrow> bool" where
  "is_selenium TimeoutException = True"
| "is_selenium NoSuchElementException = True"
| "is_selenium ElementNotInteractableException = True"
| "is_selenium WebDriverException = True"
| "is_selenium _ = False"

text \<open>
  \<^verbatim>\<open>str(e)\<close>. For an exception of Python itself it is the message. selenium's
  \<^verbatim>\<open>__str__\<close> gives \<^verbatim>\<open>Message: <msg>\<close> and a newline, then, if \<^verbatim>\<open>screen\<close> is truthy, the
  line \<^verbatim>\<open>Screenshot: available via screen\<close>, then, if \<^verbatim>\<open>stacktrace\<close> is truthy,
  \<^verbatim>\<open>Stacktrace:\<close>, a newline and the lines of the stack trace joined by newlines.
\<close>

definition str_of :: "exn \<Rightarrow> string" where
  "str_of e =
     (if is_selenium (exn_class e) then
        ''Message: '' @ msg e @ [CHR 0x0A]
        @ (case screen e of
             None \<Rightarrow> []
           | Some scr \<Rightarrow>
               if scr \<noteq> [] then ''Screenshot: available via screen'' @ [CHR 0x0A] else [])
        @ (case stacktrace e of
             None \<Rightarrow> []
           | Some st \<Rightarrow>
               if st \<noteq> [] then ''Stacktrace:'' @ [CHR 0x0A] @ join [CHR 0x0A] st else [])
      else msg e)"

datatype 'a res = Ret 'a | Raise exn

subsection \<open>The browser as an environment\<close>

text \<open>What helium's \<^verbatim>\<open>click\<close> and \<^verbatim>\<open>exists\<close> are given: a GUI element description, or
  (for \<^verbatim>\<open>helium.click("Confirm")\<close>) a plain string.\<close>

datatype gui_element =
    Text string
  | Button string
  | Link string
  | S string
  | Str string

datatype key = ENTER

type_synonym elem = nat
type_synonym png = string

record image =
  width :: nat
  height :: nat
  pixels :: png

datatype event =
    GoTo string
  | Exists gui_element
  | Click gui_element
  | Write string
  | Press key
  | Sleep nat
  | FindElement string
  | FindElements string
  | IsDisplayed elem
  | GetAttribute elem string
  | GetDriver
  | GetScreenshotAsPng
  | ImageOpen png
  | CurrentUrl
  | Print string

type_synonym trace = "event list"

text \<open>
  The environment: one field per library call the scripts make. Each takes the trace of
  the calls made before it, so that what the browser answers may depend on everything
  done so far (a click changes the page, time passes while sleeping). \<open>e_query\<close> is the
  page itself: the elements a CSS selector matches, in page order; both
  \<^verbatim>\<open>find_element\<close> and \<^verbatim>\<open>find_elements\<close> read it. \<open>e_no_such_element\<close> is what the
  driver reports when \<^verbatim>\<open>find_element\<close> finds nothing: the message, the screen and the
  stack trace of the \<^verbatim>\<open>NoSuchElementException\<close>. \<open>e_get_driver\<close> says whether
  \<^verbatim>\<open>helium.get_driver()\<close> returns a driver (\<open>True\<close>) or \<^verbatim>\<open>None\<close>.
\<close>

record env =
  e_go_to :: "trace \<Rightarrow> string \<Rightarrow> unit res"
  e_exists :: "trace \<Rightarrow> gui_element \<Rightarrow> bool res"
  e_click :: "trace \<Rightarrow> gui_element \<Rightarrow> unit res"
  e_write :: "trace \<Rightarrow> string \<Rightarrow> unit res"
  e_press :: "trace \<Rightarrow> key \<Rightarrow> unit res"
  e_query :: "trace \<Rightarrow> string \<Rightarrow> elem list res"
  e_is_displayed :: "trace \<Rightarrow> elem \<Rightarrow> bool res"
  e_no_such_element :: "trace \<Rightarrow> string \<Rightarrow> string \<times> string option \<times> string list option"
  e_get_attribute :: "trace \<Rightarrow> elem \<Rightarrow> string \<Rightarrow> string option res"
  e_get_driver :: "trace \<Rightarrow> bool"
  e_get_screenshot_as_png :: "trace \<Rightarrow> png res"
  e_image_open :: "trace \<Rightarrow> png \<Rightarrow> image res"
  e_current_url :: "trace \<Rightarrow> string res"

subsection \<open>Sequencing, raising and catching\<close>

type_synonym 'a prog = "trace \<Rightarrow> 'a res \<times> trace"

definition ret :: "'a \<Rightarrow> 'a prog" where
  "ret v t = (Ret v, t)"

definition raise :: "exn \<Rightarrow> 'a prog" where
  "raise e t = (Raise e, t)"

text \<open>Statement sequencing: a raised exception skips the rest.\<close>

definition bind :: "'a prog \<Rightarrow> ('a \<Rightarrow> 'b prog) \<Rightarrow> 'b prog" where
  "bind m f t = (case m t of (Ret v, t') \<Rightarrow> f v t' | (Raise e, t') \<Rightarrow> (Raise e, t'))"

text \<open>A library call: the environment answers from the trace so far, and the call is
  recorded.\<close>

definition call :: "event \<Rightarrow> (trace \<Rightarrow> 'a res) \<Rightarrow> 'a prog" where
  "call ev answer t = (answer t, t @ [ev])"

text \<open>\<^verbatim>\<open>try: body  except Exception as e: return handler(e)\<close>.\<close>

definition try_except :: "'a prog \<Rightarrow> (exn \<Rightarrow> 'a) \<Rightarrow> 'a prog" where
  "try_except body handler t =
     (case body t of
        (Ret v, t') \<Rightarrow> (Ret v, t')
      | (Raise e, t') \<Rightarrow> if is_Exception e then (Ret (handler e), t') else (Raise e, t'))"

subsection \<open>The library calls\<close>

definition go_to :: "env \<Rightarrow> string \<Rightarrow> unit prog" where
  "go_to env url = call (GoTo url) (\<lambda>t. e_go_to env t url)"

definition exists :: "env \<Rightarrow> gui_element \<Rightarrow> bool prog" where
  "exists env g = call (Exists g) (\<lambda>t. e_exists env t g)"

definition click :: "env \<Rightarrow> gui_element \<Rightarrow> unit prog" where
  "click env g = call (Click g) (\<lambda>t. e_click env t g)"

text \<open>\<^verbatim>\<open>helium.write\<close>.\<close>

definition write_text :: "env \<Rightarrow> string \<Rightarrow> unit prog" where
  "write_text env s = call (Write s) (\<lambda>t. e_write env t s)"

definition press :: "env \<Rightarrow> key \<Rightarrow> unit prog" where
  "press env k = call (Press k) (\<lambda>t. e_press env t k)"

text \<open>\<^verbatim>\<open>time.sleep\<close>, in milliseconds.\<close>

definition sleep :: "nat \<Rightarrow> unit prog" where
  "sleep ms = call (Sleep ms) (\<lambda>t. Ret ())"

definition find_elements :: "env \<Rightarrow> string \<Rightarrow> elem list prog" where
  "find_elements env sel = call (FindElements sel) (\<lambda>t. e_query env t sel)"

text \<open>\<^verbatim>\<open>driver.find_element\<close>: the first match, \<^verbatim>\<open>NoSuchElementException\<close> when there is
  none.\<close>

definition no_such_element :: "env \<Rightarrow> trace \<Rightarrow> string \<Rightarrow> exn" where
  "no_such_element env t sel =
     (case e_no_such_element env t sel of
        (m, scr, st) \<Rightarrow> Exn NoSuchElementException m scr st)"

definition find_element :: "env \<Rightarrow> string \<Rightarrow> elem prog" where
  "find_element env sel =
     call (FindElement sel)
       (\<lambda>t. case e_query env t sel of
               Ret [] \<Rightarrow> Raise (no_such_element env t sel)
             | Ret (x # _) \<Rightarrow> Ret x
             | Raise e \<Rightarrow> Raise e)"

definition is_displayed :: "env \<Rightarrow> elem \<Rightarrow> bool prog" where
  "is_displayed env el = call (IsDisplayed el) (\<lambda>t. e_is_displayed env t el)"

text \<open>\<^verbatim>\<open>helium.driver.execute_script(js, element)\<close>. The module \<^verbatim>\<open>helium\<close> has the
  functions \<^verbatim>\<open>get_driver\<close> and \<^verbatim>\<open>set_driver\<close> and no attribute \<^verbatim>\<open>driver\<close>: reading
  \<^verbatim>\<open>helium.driver\<close> raises \<^verbatim>\<open>AttributeError\<close>, and the browser is not asked.\<close>

definition helium_has_no_driver :: exn where
  "helium_has_no_driver =
     Exn AttributeError
       (''module '' @ sq @ ''helium'' @ sq @ '' has no attribute '' @ sq @ ''driver'' @ sq)
       None None"

definition execute_script :: "string \<Rightarrow> elem \<Rightarrow> unit prog" where
  "execute_script js el = raise helium_has_no_driver"

definition get_attribute :: "env \<Rightarrow> elem \<Rightarrow> string \<Rightarrow> string option prog" where
  "get_attribute env el a = call (GetAttribute el a) (\<lambda>t. e_get_attribute env t el a)"

subsection \<open>Waiting: \<^verbatim>\<open>WebDriverWait.until\<close>\<close>

text \<open>
  selenium's \<^verbatim>\<open>WebDriverWait(driver, timeout, poll_frequency).until(method)\<close> calls
  \<open>method\<close> again and again: a truthy value is returned at once; a falsy value means
  another try after sleeping \<open>poll_frequency\<close>; so does a \<^verbatim>\<open>NoSuchElementException\<close> (the
  one ignored class), whose \<^verbatim>\<open>screen\<close> and \<^verbatim>\<open>stacktrace\<close> are kept; any other exception
  leaves the loop; once the timeout has passed, \<^verbatim>\<open>TimeoutException\<close> is raised with an
  empty message and the screen and stack trace kept last (\<^verbatim>\<open>None\<close> if no try raised).
  A method is modelled as giving \<open>Some v\<close> for a truthy \<open>v\<close> and \<open>None\<close> for a falsy one.

  The loop runs on the wall clock. Here it is run on a poll budget: the tries at
  times 0, \<open>poll\<close>, 2 \<open>poll\<close>, ... up to \<open>timeout\<close>, that is \<open>timeout div poll + 1\<close> tries.
\<close>

definition timeout_with :: "string option \<Rightarrow> string list option \<Rightarrow> exn" where
  "timeout_with scr st = Exn TimeoutException [] scr st"

text \<open>The \<^verbatim>\<open>TimeoutException\<close> of a wait in which no try raised: its \<^verbatim>\<open>str(e)\<close> is
  \<^verbatim>\<open>Message: \<close> and a newline.\<close>

definition timeout_exn :: exn where
  "timeout_exn = timeout_with None None"

definition poll_frequency :: nat where
  "poll_frequency = 500"

fun poll_loop ::
  "nat \<Rightarrow> string option \<Rightarrow> string list option \<Rightarrow> 'a option prog \<Rightarrow> 'a prog" where
  "poll_loop 0 scr st method t = (Raise (timeout_with scr st), t)"
| "poll_loop (Suc n) scr st method t =
     (case method t of
        (Ret (Some v), t') \<Rightarrow> (Ret v, t')
      | (Ret None, t') \<Rightarrow>
          if n = 0 then (Raise (timeout_with scr st), t')
          else poll_loop n scr st method (t' @ [Sleep poll_frequency])
      | (Raise e, t') \<Rightarrow>
          if exn_class e = NoSuchElementException
          then (if n = 0 then (Raise (timeout_with (screen e) (stacktrace e)), t')
                else poll_loop n (screen e) (stacktrace e) method
                       (t' @ [Sleep poll_frequency]))
          else (Raise e, t'))"

definition until :: "nat \<Rightarrow> 'a option prog \<Rightarrow> 'a prog" where
  "until timeout method = poll_loop (timeout div poll_frequency + 1) None None method"

text \<open>\<^verbatim>\<open>EC.presence_of_all_elements_located\<close>: the list \<^verbatim>\<open>find_elements\<close> gives; an empty
  list is falsy.\<close>

definition presence_of_all_elements_located :: "env \<Rightarrow> string \<Rightarrow> elem list option prog" where
  "presence_of_all_elements_located env sel =
     bind (find_elements env sel) (\<lambda>els. ret (if els = [] then None else Some els))"

text \<open>\<^verbatim>\<open>EC.presence_of_element_located\<close>: what \<^verbatim>\<open>find_element\<close> gives (an element is
  truthy), or what it raises.\<close>

definition presence_of_element_located :: "env \<Rightarrow> string \<Rightarrow> elem option prog" where
  "presence_of_element_located env sel = bind (find_element env sel) (\<lambda>el. ret (Some el))"

text \<open>\<^verbatim>\<open>helium.wait_until(g.exists, timeout_secs)\<close>: a \<^verbatim>\<open>WebDriverWait\<close> on the result of
  \<^verbatim>\<open>g.exists()\<close>, polled every 0.5 s.\<close>

definition wait_until_exists :: "env \<Rightarrow> gui_element \<Rightarrow> nat \<Rightarrow> unit prog" where
  "wait_until_exists env g timeout_secs =
     bind (until (timeout_secs * 1000)
             (bind (exists env g) (\<lambda>b. ret (if b then Some True else None))))
          (\<lambda>_. ret ())"

subsection \<open>The primitives of \<^verbatim>\<open>agent.py\<close>\<close>

definition navigate_to_zepto_body :: "env \<Rightarrow> string prog" where
  "navigate_to_zepto_body env =
     bind (go_to env ''https://www.zeptonow.com/'') (\<lambda>_.
     bind (wait_until_exists env (Text ''Search for'') 10) (\<lambda>_.
     ret ''Successfully navigated to Zepto.''))"

text \<open>\<^verbatim>\<open>navigate_to_zepto\<close> (agent.py 67-80; zepto.py 62-75 is the same text).\<close>

definition navigate_to_zepto :: "env \<Rightarrow> string prog" where
  "navigate_to_zepto env =
     try_except (navigate_to_zepto_body env) (\<lambda>e. ''Error navigating to Zepto: '' @ str_of e)"

text \<open>\<^verbatim>\<open>handle_location_popup\<close> (agent.py 82-112).\<close>

definition handle_location_popup_body :: "env \<Rightarrow> string prog" where
  "handle_location_popup_body env =
     bind (sleep 2000) (\<lambda>_.
     bind (exists env (Button ''Detect my location'')) (\<lambda>detect.
     if detect then
       bind (click env (Button ''Detect my location'')) (\<lambda>_.
       ret ''Clicked 'Detect my location'.'')
     else
     bind (exists env (Button ''Allow'')) (\<lambda>allow.
     if allow then
       bind (click env (Button ''Allow'')) (\<lambda>_.
       ret ''Clicked 'Allow' on location popup.'')
     else
     bind (exists env (Text ''Enter your Pin Code'')) (\<lambda>pin.
     if pin then
       bind (write_text env ''400001'') (\<lambda>_.
       bind (click env (Str ''Confirm'')) (\<lambda>_.
       ret ''Entered PIN and confirmed location.''))
     else
       ret ''No location popup detected.''))))"

definition handle_location_popup :: "env \<Rightarrow> string prog" where
  "handle_location_popup env =
     try_except (handle_location_popup_body env)
       (\<lambda>e. ''Error handling location popup: '' @ str_of e)"

text \<open>\<^verbatim>\<open>search_product\<close> (agent.py 114-132).\<close>

definition search_product_body :: "env \<Rightarrow> string \<Rightarrow> string prog" where
  "search_product_body env product_name =
     bind (click env (Link ''Search for products'')) (\<lambda>_.
     bind (write_text env product_name) (\<lambda>_.
     bind (press env ENTER) (\<lambda>_.
     bind (wait_until_exists env (Text product_name) 10) (\<lambda>_.
     ret (''Successfully searched for '' @ sq @ product_name @ sq @ ''.'')))))"

definition search_product :: "env \<Rightarrow> string \<Rightarrow> string prog" where
  "search_product env product_name =
     try_except (search_product_body env product_name)
       (\<lambda>e. ''Error searching for '' @ sq @ product_name @ sq @ '': '' @ str_of e)"

text \<open>\<^verbatim>\<open>select_first_product\<close> (agent.py 134-147).\<close>

definition select_first_product_body :: "env \<Rightarrow> string prog" where
  "select_first_product_body env =
     bind (wait_until_exists env (S ''.cursor-pointer'') 10) (\<lambda>_.
     bind (click env (S ''.cursor-pointer'')) (\<lambda>_.
     ret ''Successfully selected the first product.''))"

definition select_first_product :: "env \<Rightarrow> string prog" where
  "select_first_product env =
     try_except (select_first_product_body env)
       (\<lambda>e. ''Error selecting the first product: '' @ str_of e)"

text \<open>\<^verbatim>\<open>add_to_cart\<close> (agent.py 149-162).\<close>

definition add_to_cart_body :: "env \<Rightarrow> string prog" where
  "add_to_cart_body env =
     bind (wait_until_exists env (Button ''Add to Cart'') 10) (\<lambda>_.
     bind (click env (Button ''Add to Cart'')) (\<lambda>_.
     ret ''Successfully added the product to the cart.''))"

definition add_to_cart :: "env \<Rightarrow> string prog" where
  "add_to_cart env =
     try_except (add_to_cart_body env)
       (\<lambda>e. ''Error adding product to the cart: '' @ str_of e)"

text \<open>\<^verbatim>\<open>close_popups\<close> (agent.py 164-189). The inner loop asks every element of the
  list whether it is displayed and, for one that is, goes on to
  \<^verbatim>\<open>helium.driver.execute_script\<close>; the outer loop goes through the selectors, waiting
  up to one second for each to match.\<close>

definition modal_selectors :: "string list" where
  "modal_selectors =
     [''button[class*='close']'', ''[class*='modal']'', ''.modal-close'', ''.close-modal'']"

fun click_displayed :: "env \<Rightarrow> elem list \<Rightarrow> unit prog" where
  "click_displayed env [] = ret ()"
| "click_displayed env (element # elements) =
     bind (is_displayed env element) (\<lambda>shown.
     if shown then
       bind (execute_script ''arguments[0].click();'' element) (\<lambda>_.
       click_displayed env elements)
     else click_displayed env elements)"

fun close_selectors :: "env \<Rightarrow> string list \<Rightarrow> unit prog" where
  "close_selectors env [] = ret ()"
| "close_selectors env (selector # selectors) =
     bind (until 1000 (presence_of_all_elements_located env selector)) (\<lambda>elements.
     bind (click_displayed env elements) (\<lambda>_.
     close_selectors env selectors))"

definition close_popups_body :: "env \<Rightarrow> string prog" where
  "close_popups_body env =
     bind (close_selectors env modal_selectors) (\<lambda>_. ret ''Popups closed.'')"

definition close_popups :: "env \<Rightarrow> string prog" where
  "close_popups env =
     try_except (close_popups_body env) (\<lambda>e. ''Error closing popups: '' @ str_of e)"

subsection \<open>The primitive of \<^verbatim>\<open>zepto.py\<close>\<close>

definition category_selector :: string where
  "category_selector = ''div[id='' @ dq @ ''CATEGORY_GRID_V3-element'' @ dq @ ''] img[alt]''"

text \<open>The loop over \<^verbatim>\<open>category_imgs\<close>: \<^verbatim>\<open>category_names\<close> is the accumulator; an
  \<^verbatim>\<open>alt\<close> that is \<^verbatim>\<open>None\<close> or empty is skipped.\<close>

fun collect_alt_texts :: "env \<Rightarrow> elem list \<Rightarrow> string list \<Rightarrow> string list prog" where
  "collect_alt_texts env [] category_names = ret category_names"
| "collect_alt_texts env (img # imgs) category_names =
     bind (get_attribute env img ''alt'') (\<lambda>alt_text.
     case alt_text of
       None \<Rightarrow> collect_alt_texts env imgs category_names
     | Some a \<Rightarrow>
         if a \<noteq> [] then collect_alt_texts env imgs (category_names @ [strip a])
         else collect_alt_texts env imgs category_names)"

text \<open>\<^verbatim>\<open>scrape_categories\<close> (zepto.py 77-108).\<close>

definition scrape_categories_body :: "env \<Rightarrow> string prog" where
  "scrape_categories_body env =
     bind (until 3000 (presence_of_element_located env category_selector)) (\<lambda>_.
     bind (find_elements env category_selector) (\<lambda>category_imgs.
     if category_imgs = [] then
       ret ''No category images found. Possibly incorrect selector.''
     else
       bind (collect_alt_texts env category_imgs []) (\<lambda>category_names.
       if category_names \<noteq> [] then
         ret (''Categories found: '' @ join '', '' category_names)
       else
         ret ''No alt text found in category images.'')))"

definition scrape_categories :: "env \<Rightarrow> string prog" where
  "scrape_categories env =
     try_except (scrape_categories_body env)
       (\<lambda>e. ''Error scraping categories: '' @ str_of e)"

subsection \<open>The tools handed to the agent\<close>

text \<open>The \<^verbatim>\<open>tools\<close> lists of the two \<^verbatim>\<open>CodeAgent\<close>s (agent.py 195-202, zepto.py 114),
  each tool with the arguments it is called with.\<close>

datatype tool =
    NavigateToZepto
  | HandleLocationPopup
  | SearchProduct string
  | SelectFirstProduct
  | AddToCart
  | ClosePopups
  | ScrapeCategories

fun tool_body :: "env \<Rightarrow> tool \<Rightarrow> string prog" where
  "tool_body env NavigateToZepto = navigate_to_zepto_body env"
| "tool_body env HandleLocationPopup = handle_location_popup_body env"
| "tool_body env (SearchProduct product_name) = search_product_body env product_name"
| "tool_body env SelectFirstProduct = select_first_product_body env"
| "tool_body env AddToCart = add_to_cart_body env"
| "tool_body env ClosePopups = close_popups_body env"
| "tool_body env ScrapeCategories = scrape_categories_body env"

fun run_tool :: "env \<Rightarrow> tool \<Rightarrow> string prog" where
  "run_tool env NavigateToZepto = navigate_to_zepto env"
| "run_tool env HandleLocationPopup = handle_location_popup env"
| "run_tool env (SearchProduct product_name) = search_product env product_name"
| "run_tool env SelectFirstProduct = select_first_product env"
| "run_tool env AddToCart = add_to_cart env"
| "run_tool env ClosePopups = close_popups env"
| "run_tool env ScrapeCategories = scrape_categories env"

text \<open>The text each tool puts before \<^verbatim>\<open>str(e)\<close> in its \<^verbatim>\<open>except\<close> branch.\<close>

fun error_prefix :: "tool \<Rightarrow> string" where
  "error_prefix NavigateToZepto = ''Error navigating to Zepto: ''"
| "error_prefix HandleLocationPopup = ''Error handling location popup: ''"
| "error_prefix (SearchProduct product_name) =
     ''Error searching for '' @ sq @ product_name @ sq @ '': ''"
| "error_prefix SelectFirstProduct = ''Error selecting the first product: ''"
| "error_prefix AddToCart = ''Error adding product to the cart: ''"
| "error_prefix ClosePopups = ''Error closing popups: ''"
| "error_prefix ScrapeCategories = ''Error scraping categories: ''"

subsection \<open>The step callback \<^verbatim>\<open>save_screenshot\<close>\<close>

text \<open>The two fields of smolagents' \<^verbatim>\<open>ActionStep\<close> that the callback reads and writes.
  Both start as \<^verbatim>\<open>None\<close>.\<close>

record step_log =
  observations :: "string option"
  observations_images :: "image list option"

text \<open>Decimal digits of a number, for the f-string that prints \<^verbatim>\<open>image.size\<close>.\<close>

fun show_nat :: "nat \<Rightarrow> string" where
  "show_nat n =
     (if n < 10 then [char_of (48 + n)]
      else show_nat (n div 10) @ [char_of (48 + n mod 10)])"

definition get_driver :: "env \<Rightarrow> bool prog" where
  "get_driver env = call GetDriver (\<lambda>t. Ret (e_get_driver env t))"

definition get_screenshot_as_png :: "env \<Rightarrow> png prog" where
  "get_screenshot_as_png env = call GetScreenshotAsPng (e_get_screenshot_as_png env)"

definition image_open :: "env \<Rightarrow> png \<Rightarrow> image prog" where
  "image_open env png_bytes = call (ImageOpen png_bytes) (\<lambda>t. e_image_open env t png_bytes)"

definition print_line :: "string \<Rightarrow> unit prog" where
  "print_line s = call (Print s) (\<lambda>t. Ret ())"

text \<open>\<^verbatim>\<open>driver.current_url\<close>. When \<^verbatim>\<open>driver\<close> is \<^verbatim>\<open>None\<close> the attribute access raises
  \<^verbatim>\<open>AttributeError\<close> and the browser is not asked.\<close>

definition none_has_no_current_url :: exn where
  "none_has_no_current_url =
     Exn AttributeError
       (sq @ ''NoneType'' @ sq @ '' object has no attribute '' @ sq @ ''current_url'' @ sq)
       None None"

definition current_url :: "env \<Rightarrow> bool \<Rightarrow> string prog" where
  "current_url env driver =
     (if driver then call CurrentUrl (e_current_url env) else raise none_has_no_current_url)"

text \<open>The body of \<^verbatim>\<open>if driver:\<close> up to the assignment: the image that is then stored.\<close>

definition capture_image :: "env \<Rightarrow> image prog" where
  "capture_image env =
     bind (get_screenshot_as_png env) (\<lambda>png_bytes.
     bind (image_open env png_bytes) (\<lambda>im.
     bind (print_line (''Captured a screenshot: ('' @ show_nat (width im) @ '', ''
                        @ show_nat (height im) @ '') pixels'')) (\<lambda>_.
     ret im)))"

text \<open>\<^verbatim>\<open>save_screenshot\<close> (agent.py 30-51; zepto.py 29-46 is the same text). The step log
  is a mutable object: what was assigned before an exception stays assigned.\<close>

definition save_screenshot :: "env \<Rightarrow> step_log \<Rightarrow> trace \<Rightarrow> unit res \<times> step_log \<times> trace" where
  "save_screenshot env step_log t =
     (case bind (sleep 1000) (\<lambda>_. get_driver env) t of
        (Raise e, t1) \<Rightarrow> (Raise e, step_log, t1)
      | (Ret driver, t1) \<Rightarrow>
          (case (if driver then bind (capture_image env) (\<lambda>im. ret (Some im))
                 else ret None) t1 of
             (Raise e, t2) \<Rightarrow> (Raise e, step_log, t2)
           | (Ret shot, t2) \<Rightarrow>
               (let step_log1 =
                      (case shot of
                         None \<Rightarrow> step_log
                       | Some im \<Rightarrow> step_log\<lparr>observations_images := Some [im]\<rparr>)
                in case current_url env driver t2 of
                     (Raise e, t3) \<Rightarrow> (Raise e, step_log1, t3)
                   | (Ret url, t3) \<Rightarrow>
                       (let url_info = ''Current URL: '' @ url
                        in (Ret (),
                            step_log1\<lparr>observations :=
                              Some (case observations step_log1 of
                                      None \<Rightarrow> url_info
                                    | Some prior \<Rightarrow>
                                        if prior \<noteq> [] then prior @ [CHR 0x0A] @ url_info
                                        else url_info)\<rparr>,
                            t3)))))"

subsection \<open>The control loop\<close>

text \<open>
  Both scripts hand the tools, the callback and \<^verbatim>\<open>max_steps\<close> to smolagents'
  \<^verbatim>\<open>CodeAgent\<close> and call \<^verbatim>\<open>agent.run\<close>; the loop itself is not part of the two scripts.
  Only the two budgets are.
\<close>

definition agent_max_steps :: nat where
  "agent_max_steps = 20"

definition zepto_max_steps :: nat where
  "zepto_max_steps = 10"

text \<open>What the Decision Function answers: the next primitive with its arguments, or the
  final answer.\<close>

datatype decision = Invoke tool | FinalAnswer string

record step =
  chosen :: tool
  outcome :: string
  observation :: step_log
  index :: nat

text \<open>How a run ends: the final answer; the budget exhausted, with the last outcome
  message if there is one; or an error that left a primitive or the capture.\<close>

datatype termination_signal = Done string | Aborted "string option" | Fatal exn

definition last_outcome :: "step list \<Rightarrow> string option" where
  "last_outcome history = (if history = [] then None else Some (outcome (last history)))"

text \<open>
  Modelled from the spec: the Step Harness and the Control Loop (sections 4.4 and 4.5),
  which the scripts leave to \<^verbatim>\<open>CodeAgent.run\<close>. One round asks the Decision Function with
  the history, runs the primitive it names, captures the observation (the outcome message
  is the step's text when the capture starts) and appends the step; the loop stops on a
  final answer, on an error that escapes, or when the history has \<open>max_steps\<close> steps.
\<close>

function control_loop ::
  "env \<Rightarrow> (step list \<Rightarrow> decision) \<Rightarrow> nat \<Rightarrow> step list \<Rightarrow> trace
     \<Rightarrow> termination_signal \<times> step list \<times> trace" where
  "control_loop env decide max_steps history t =
     (if max_steps \<le> length history then (Aborted (last_outcome history), history, t)
      else
        case decide history of
          FinalAnswer answer \<Rightarrow> (Done answer, history, t)
        | Invoke p \<Rightarrow>
            (case run_tool env p t of
               (Raise e, t1) \<Rightarrow> (Fatal e, history, t1)
             | (Ret message, t1) \<Rightarrow>
                 (case save_screenshot env
                         \<lparr>observations = Some message, observations_images = None\<rparr> t1 of
                    (Raise e, log, t2) \<Rightarrow> (Fatal e, history, t2)
                  | (Ret _, log, t2) \<Rightarrow>
                      control_loop env decide max_steps
                        (history @ [\<lparr>chosen = p, outcome = message, observation = log,
                                     index = length history\<rparr>]) t2)))"
  by pat_completeness auto
termination
  by (relation "measure (\<lambda>(env, decide, max_steps, history, t). max_steps - length history)")
     auto

text \<open>The steps a run started: those in the history, and the one an escaping error
  interrupted.\<close>

fun steps_started :: "termination_signal \<times> step list \<times> trace \<Rightarrow> nat" where
  "steps_started (Fatal e, history, t) = Suc (length history)"
| "steps_started (_, history, t) = length history"

definition agent_run :: "env \<Rightarrow> (step list \<Rightarrow> decision) \<Rightarrow> termination_signal \<times> step list \<times> trace" where
  "agent_run env decide = control_loop env decide agent_max_steps [] []"

definition zepto_run :: "env \<Rightarrow> (step list \<Rightarrow> decision) \<Rightarrow> termination_signal \<times> step list \<times> trace" where
  "zepto_run env decide = control_loop env decide zepto_max_steps [] []"

subsection \<open>Some browsers\<close>

text \<open>A browser with a live driver and an empty page: every command is accepted, no GUI
  element exists, no selector matches anything; an element that is not found is reported
  with one line of stack trace.\<close>

definition env_blank :: env where
  "env_blank =
     \<lparr>e_go_to = (\<lambda>t url. Ret ()),
      e_exists = (\<lambda>t g. Ret False),
      e_click = (\<lambda>t g. Ret ()),
      e_write = (\<lambda>t s. Ret ()),
      e_press = (\<lambda>t k. Ret ()),
      e_query = (\<lambda>t sel. Ret []),
      e_is_displayed = (\<lambda>t el. Ret True),
      e_no_such_element =
        (\<lambda>t sel. (''no such element: Unable to locate element'', None,
                   Some [''#0 0x55d1c0a4e4e3 <unknown>''])),
      e_get_attribute = (\<lambda>t el a. Ret None),
      e_get_driver = (\<lambda>t. True),
      e_get_screenshot_as_png = (\<lambda>t. Ret ''PNG''),
      e_image_open = (\<lambda>t p. Ret \<lparr>width = 1000, height = 1300, pixels = p\<rparr>),
      e_current_url = (\<lambda>t. Ret ''https://www.zeptonow.com/'')\<rparr>"

text \<open>The same with no driver: \<^verbatim>\<open>helium.get_driver()\<close> gives \<^verbatim>\<open>None\<close>.\<close>

definition env_no_driver :: env where
  "env_no_driver = env_blank\<lparr>e_get_driver := (\<lambda>t. False)\<rparr>"

text \<open>A session that is gone: loading a page raises selenium's \<^verbatim>\<open>WebDriverException\<close>.\<close>

definition disconnected :: exn where
  "disconnected =
     Exn WebDriverException ''disconnected: not connected to DevTools'' None None"

definition env_crashed :: env where
  "env_crashed = env_blank\<lparr>e_go_to := (\<lambda>t url. Raise disconnected)\<rparr>"

text \<open>The home page, whose search box text shows once four calls have been made (the
  third poll of the wait).\<close>

definition env_home :: env where
  "env_home = env_blank\<lparr>e_exists := (\<lambda>t g. Ret (g = Text ''Search for'' \<and> 4 \<le> length t))\<rparr>"

text \<open>A home page on which asking for the landmark raises \<^verbatim>\<open>NoSuchElementException\<close>
  at the first try and finds it from then on, and one on which asking raises an error of
  the driver.\<close>

definition env_flaky :: env where
  "env_flaky =
     env_blank\<lparr>e_exists :=
       (\<lambda>t g. if length t < 2 then Raise (Exn NoSuchElementException ''no such element'' None None)
              else Ret True)\<rparr>"

definition stale :: exn where
  "stale = Exn WebDriverException ''stale element reference'' None None"

definition env_stale :: env where
  "env_stale = env_blank\<lparr>e_exists := (\<lambda>t g. Raise stale)\<rparr>"

text \<open>Pages showing one of the three location prompts.\<close>

definition env_detect :: env where
  "env_detect = env_blank\<lparr>e_exists := (\<lambda>t g. Ret (g = Button ''Detect my location''))\<rparr>"

definition env_allow :: env where
  "env_allow = env_blank\<lparr>e_exists := (\<lambda>t g. Ret (g = Button ''Allow''))\<rparr>"

definition env_pin :: env where
  "env_pin = env_blank\<lparr>e_exists := (\<lambda>t g. Ret (g = Text ''Enter your Pin Code''))\<rparr>"

text \<open>A home page with three category images: the first with blanks around its text, the
  second with an empty \<^verbatim>\<open>alt\<close>.\<close>

definition category_alt :: "elem \<Rightarrow> string option" where
  "category_alt el =
     (if el = 1 then Some ''  Fruits '' else if el = 2 then Some [] else Some ''Dairy'')"

definition env_categories :: env where
  "env_categories =
     env_blank\<lparr>e_query := (\<lambda>t sel. Ret [1, 2, 3]),
               e_get_attribute := (\<lambda>t el a. Ret (category_alt el))\<rparr>"

text \<open>A home page with two category images that have no \<^verbatim>\<open>alt\<close> text.\<close>

definition env_no_alt :: env where
  "env_no_alt = env_blank\<lparr>e_query := (\<lambda>t sel. Ret [1, 2])\<rparr>"

text \<open>A page whose only category image is there for the wait and gone when the list is
  read.\<close>

definition env_vanishing :: env where
  "env_vanishing = env_blank\<lparr>e_query := (\<lambda>t sel. Ret (if t = [] then [1] else []))\<rparr>"

subsection \<open>Describing a wait for a GUI element\<close>

text \<open>
  The wait of \<^verbatim>\<open>helium.wait_until(g.exists, ...)\<close> started at trace \<open>t\<close> makes its
  \<open>k\<close>-th try (counted from 0) after \<open>k\<close> rounds of asking and sleeping. A try leaves the
  wait going when the answer is \<^verbatim>\<open>False\<close> or the ignored \<^verbatim>\<open>NoSuchElementException\<close>. The
  element is found within \<open>n\<close> tries when one of them is answered \<^verbatim>\<open>True\<close> and all the
  tries before it left the wait going.
\<close>

abbreviation poll_trace :: "trace \<Rightarrow> gui_element \<Rightarrow> nat \<Rightarrow> trace" where
  "poll_trace t g k \<equiv> t @ concat (replicate k [Exists g, Sleep 500])"

abbreviation not_yet :: "env \<Rightarrow> gui_element \<Rightarrow> trace \<Rightarrow> bool" where
  "not_yet env g tr \<equiv>
     e_exists env tr g = Ret False
     \<or> (\<exists>e. e_exists env tr g = Raise e \<and> exn_class e = NoSuchElementException)"

abbreviation found_within :: "env \<Rightarrow> gui_element \<Rightarrow> trace \<Rightarrow> nat \<Rightarrow> bool" where
  "found_within env g t n \<equiv>
     \<exists>k<n. e_exists env (poll_trace t g k) g = Ret True
            \<and> (\<forall>j<k. not_yet env g (poll_trace t g j))"


section \<open>Properties\<close>

subsection \<open>Catching and polling\<close>

lemma try_except_catches:
  assumes "fst (body t) = Raise e" and "is_Exception e"
  shows "try_except body handler t = (Ret (handler e), snd (body t))"
  using assms by (cases "body t") (simp add: try_except_def)

lemma try_except_passes:
  assumes "fst (body t) = Raise e" and "\<not> is_Exception e"
  shows "try_except body handler t = (Raise e, snd (body t))"
  using assms by (cases "body t") (simp add: try_except_def)

lemma try_except_returns:
  assumes "fst (body t) = Ret v"
  shows "try_except body handler t = (Ret v, snd (body t))"
  using assms by (cases "body t") (simp add: try_except_def)

text \<open>Every tool is its body inside \<^verbatim>\<open>try/except Exception\<close>, with its own message.\<close>

lemma run_tool_try_except:
  "run_tool env p = try_except (tool_body env p) (\<lambda>e. error_prefix p @ str_of e)"
  by (cases p)
     (simp_all add: navigate_to_zepto_def handle_location_popup_def search_product_def
        select_first_product_def add_to_cart_def close_popups_def scrape_categories_def)

lemma error_prefix_nonempty: "error_prefix p \<noteq> []"
  by (cases p) simp_all

text \<open>The classes of the failures a browser gives are all caught by
  \<^verbatim>\<open>except Exception\<close>.\<close>

lemma browser_failures_are_Exceptions:
  assumes "exn_class e \<in> {TimeoutException, NoSuchElementException,
             ElementNotInteractableException, WebDriverException, LookupError}"
  shows "is_Exception e"
  using assms by (cases e) auto

lemma is_Exception_timeout_with: "is_Exception (timeout_with scr st)"
  by (simp add: timeout_with_def)

lemma is_Exception_timeout: "is_Exception timeout_exn"
  by (simp add: timeout_exn_def is_Exception_timeout_with)

text \<open>Only what \<^verbatim>\<open>except Exception\<close> lets through leaves a tool.\<close>

lemma only_base_exceptions_escape:
  assumes "fst (run_tool env p t) = Raise e"
  shows "\<not> is_Exception e \<and> fst (tool_body env p t) = Raise e"
proof (cases "tool_body env p t")
  case (Pair r t')
  with assms show ?thesis
    by (cases r) (auto simp: run_tool_try_except try_except_def split: if_splits)
qed

text \<open>One try of a wait: a truthy value ends it, a falsy value or an ignored exception
  leads to the next try, any other exception ends it.\<close>

lemma poll_loop_truthy:
  assumes "method t = (Ret (Some v), t')"
  shows "poll_loop (Suc n) scr st method t = (Ret v, t')"
  using assms by simp

lemma poll_loop_falsy:
  assumes "method t = (Ret None, t')"
  shows "fst (poll_loop (Suc n) scr st method t)
           = fst (poll_loop n scr st method (t' @ [Sleep poll_frequency]))"
  using assms by (cases n) simp_all

lemma poll_loop_ignored:
  assumes "method t = (Raise e, t')" and "exn_class e = NoSuchElementException"
  shows "fst (poll_loop (Suc n) scr st method t)
           = fst (poll_loop n (screen e) (stacktrace e) method (t' @ [Sleep poll_frequency]))"
  using assms by (cases n) simp_all

lemma poll_loop_other:
  assumes "method t = (Raise e, t')" and "exn_class e \<noteq> NoSuchElementException"
  shows "poll_loop (Suc n) scr st method t = (Raise e, t')"
  using assms by simp

text \<open>A wait whose method is falsy at every try ends in the \<^verbatim>\<open>TimeoutException\<close> with the
  screen and stack trace it started with.\<close>

lemma poll_loop_all_falsy:
  assumes "\<And>t. fst (method t) = Ret None"
  shows "fst (poll_loop n scr st method t) = Raise (timeout_with scr st)"
proof (induction n arbitrary: t)
  case 0
  show ?case by simp
next
  case (Suc n)
  obtain t' where "method t = (Ret None, t')"
    using assms [of t] by (cases "method t") auto
  then show ?case
    using Suc.IH by (simp only: poll_loop_falsy)
qed

text \<open>A wait whose method is falsy, or raises \<^verbatim>\<open>NoSuchElementException\<close>, at every try
  ends in a \<^verbatim>\<open>TimeoutException\<close>.\<close>

lemma poll_loop_never:
  assumes "\<And>t. fst (method t) = Ret None
               \<or> (\<exists>e. fst (method t) = Raise e \<and> exn_class e = NoSuchElementException)"
  shows "\<exists>scr' st'. fst (poll_loop n scr st method t) = Raise (timeout_with scr' st')"
proof (induction n arbitrary: t scr st)
  case 0
  show ?case by auto
next
  case (Suc n)
  obtain r t' where m: "method t = (r, t')"
    by (cases "method t")
  from assms [of t] show ?case
  proof
    assume "fst (method t) = Ret None"
    with m have "method t = (Ret None, t')" by simp
    then show ?thesis
      using Suc.IH by (simp only: poll_loop_falsy)
  next
    assume "\<exists>e. fst (method t) = Raise e \<and> exn_class e = NoSuchElementException"
    then obtain e where "method t = (Raise e, t')" "exn_class e = NoSuchElementException"
      using m by auto
    then show ?thesis
      using Suc.IH by (simp only: poll_loop_ignored)
  qed
qed

lemma exists_method:
  "bind (exists env g) (\<lambda>b. ret (if b then Some True else None)) t
     = (case e_exists env t g of
          Ret b \<Rightarrow> Ret (if b then Some True else None)
        | Raise e \<Rightarrow> Raise e, t @ [Exists g])"
  by (simp add: bind_def exists_def call_def ret_def split: res.split)

text \<open>
  A wait for a GUI element, on any browser. It returns exactly when the element is found
  within the tries it has; when every try leaves it going it ends in a
  \<^verbatim>\<open>TimeoutException\<close>; and when a try raises anything but the ignored exception,
  the tries before having left it going, that exception leaves the wait.
\<close>

lemma poll_loop_exists:
  "((\<exists>b. fst (poll_loop n scr st
                  (bind (exists env g) (\<lambda>b. ret (if b then Some True else None))) t) = Ret b)
      \<longleftrightarrow> found_within env g t n)
   \<and> ((\<forall>j<n. not_yet env g (poll_trace t g j)) \<longrightarrow>
        (\<exists>scr' st'.
           fst (poll_loop n scr st (bind (exists env g) (\<lambda>b. ret (if b then Some True else None))) t)
             = Raise (timeout_with scr' st')))
   \<and> (\<forall>k<n. \<forall>e. e_exists env (poll_trace t g k) g = Raise e
             \<and> exn_class e \<noteq> NoSuchElementException
             \<and> (\<forall>j<k. not_yet env g (poll_trace t g j))
         \<longrightarrow> fst (poll_loop n scr st
                    (bind (exists env g) (\<lambda>b. ret (if b then Some True else None))) t)
               = Raise e)"
proof (induction n arbitrary: t scr st)
  case 0
  show ?case by auto
next
  case (Suc n)
  let ?m = "bind (exists env g) (\<lambda>b. ret (if b then Some True else None))"
  have shift: "\<And>k. poll_trace (t @ [Exists g, Sleep 500]) g k = poll_trace t g (Suc k)"
    by simp
  show ?case
  proof (cases "e_exists env t g")
    case (Ret b)
    show ?thesis
    proof (cases b)
      case True
      then have "?m t = (Ret (Some True), t @ [Exists g])"
        using Ret by (simp add: exists_method)
      then have "fst (poll_loop (Suc n) scr st ?m t) = Ret True"
        by (simp only: poll_loop_truthy fst_conv)
      then show ?thesis
        using Ret True by (auto simp: All_less_Suc2 Ex_less_Suc2 simp del: poll_loop.simps)
    next
      case False
      then have "?m t = (Ret None, t @ [Exists g])"
        using Ret by (simp add: exists_method)
      then have step: "fst (poll_loop (Suc n) scr st ?m t)
                         = fst (poll_loop n scr st ?m (t @ [Exists g, Sleep 500]))"
        using poll_loop_falsy [of ?m t "t @ [Exists g]" n scr st]
        by (simp add: poll_frequency_def)
      show ?thesis
        using Suc.IH [of scr st "t @ [Exists g, Sleep 500]", unfolded shift] Ret False
        unfolding step
        by (simp add: All_less_Suc2 Ex_less_Suc2 del: poll_loop.simps)
    qed
  next
    case (Raise e)
    then have m: "?m t = (Raise e, t @ [Exists g])"
      by (simp add: exists_method)
    show ?thesis
    proof (cases "exn_class e = NoSuchElementException")
      case True
      have step: "fst (poll_loop (Suc n) scr st ?m t)
                    = fst (poll_loop n (screen e) (stacktrace e) ?m (t @ [Exists g, Sleep 500]))"
        using poll_loop_ignored [of ?m t e "t @ [Exists g]" n scr st] m True
        by (simp add: poll_frequency_def)
      show ?thesis
        using Suc.IH [of "screen e" "stacktrace e" "t @ [Exists g, Sleep 500]", unfolded shift]
          Raise True
        unfolding step
        by (simp add: All_less_Suc2 Ex_less_Suc2 del: poll_loop.simps)
    next
      case False
      have "fst (poll_loop (Suc n) scr st ?m t) = Raise e"
        using poll_loop_other [of ?m t e "t @ [Exists g]" n scr st] m False by simp
      then show ?thesis
        using Raise False by (auto simp: All_less_Suc2 Ex_less_Suc2 simp del: poll_loop.simps)
    qed
  qed
qed

text \<open>Sequencing after a call that returned, or raised; what a wrapper leaves of the
  trace.\<close>

lemma fst_bind_Raise:
  assumes "fst (m t) = Raise e"
  shows "fst (bind m f t) = Raise e"
  using assms by (cases "m t") (simp add: bind_def)

lemma bind_Ret:
  assumes "m t = (Ret v, t')"
  shows "bind m f t = f v t'"
  using assms by (simp add: bind_def)

lemma snd_try_except: "snd (try_except body handler t) = snd (body t)"
  by (cases "body t") (simp add: try_except_def split: res.split)

lemma fst_bind_ret:
  "fst (bind m (\<lambda>_. ret c) t) = (case fst (m t) of Ret _ \<Rightarrow> Ret c | Raise e \<Rightarrow> Raise e)"
  by (cases "m t") (simp add: bind_def ret_def split: res.split)

lemma snd_bind_ret: "snd (bind m (\<lambda>_. ret c) t) = snd (m t)"
  by (cases "m t") (simp add: bind_def ret_def split: res.split)

text \<open>A wait only adds calls to the trace.\<close>

lemma poll_loop_extends:
  assumes "\<And>t. prefix t (snd (method t))"
  shows "prefix t (snd (poll_loop n scr st method t))"
proof (induction n arbitrary: t scr st)
  case 0
  show ?case by simp
next
  case (Suc n)
  obtain r t' where m: "method t = (r, t')"
    by (cases "method t")
  have t': "prefix t t'"
    using assms [of t] m by simp
  have "\<And>scr st. prefix t (snd (poll_loop n scr st method (t' @ [Sleep poll_frequency])))"
    using Suc.IH [of "t' @ [Sleep poll_frequency]"] t'
    by (meson prefix_order.trans prefix_prefix)
  with t' m show ?case
    by (auto split: res.split option.split)
qed

lemma wait_until_exists_extends: "prefix t (snd (wait_until_exists env g secs t))"
  unfolding wait_until_exists_def until_def snd_bind_ret
  by (rule poll_loop_extends) (simp add: exists_method)

text \<open>The wait of \<^verbatim>\<open>helium.wait_until(g.exists, timeout_secs)\<close> has two tries a second
  and one more.\<close>

lemma wait_until_exists_outcome:
  "(fst (wait_until_exists env g secs t) = Ret ()
      \<longleftrightarrow> found_within env g t (Suc (2 * secs)))
   \<and> ((\<forall>j<Suc (2 * secs). not_yet env g (poll_trace t g j)) \<longrightarrow>
        (\<exists>scr st. fst (wait_until_exists env g secs t) = Raise (timeout_with scr st)))
   \<and> (\<forall>k<Suc (2 * secs). \<forall>e. e_exists env (poll_trace t g k) g = Raise e
             \<and> exn_class e \<noteq> NoSuchElementException
             \<and> (\<forall>j<k. not_yet env g (poll_trace t g j))
         \<longrightarrow> fst (wait_until_exists env g secs t) = Raise e)"
proof -
  let ?m = "bind (exists env g) (\<lambda>b. ret (if b then Some True else None))"
  have n: "secs * 1000 div poll_frequency + 1 = Suc (2 * secs)"
    by (simp add: poll_frequency_def)
  have w: "fst (wait_until_exists env g secs t)
             = (case fst (poll_loop (Suc (2 * secs)) None None ?m t) of
                  Ret _ \<Rightarrow> Ret () | Raise e \<Rightarrow> Raise e)"
    by (simp only: wait_until_exists_def until_def fst_bind_ret n)
  have r: "\<And>x. (case x of Ret (_::bool) \<Rightarrow> Ret () | Raise e \<Rightarrow> Raise e) = Ret ()
                \<longleftrightarrow> (\<exists>b. x = Ret b)"
    by (simp split: res.split)
  have ok: "fst (wait_until_exists env g secs t) = Ret ()
              \<longleftrightarrow> (\<exists>b. fst (poll_loop (Suc (2 * secs)) None None ?m t) = Ret b)"
    unfolding w r by simp
  note pl = poll_loop_exists [of "Suc (2 * secs)" None None env g t]
  show ?thesis
  proof (intro conjI impI allI)
    show "fst (wait_until_exists env g secs t) = Ret ()
            \<longleftrightarrow> found_within env g t (Suc (2 * secs))"
      unfolding ok using pl by blast
  next
    assume "\<forall>j<Suc (2 * secs). not_yet env g (poll_trace t g j)"
    with pl obtain scr st
      where "fst (poll_loop (Suc (2 * secs)) None None ?m t) = Raise (timeout_with scr st)"
      by blast
    then have "fst (wait_until_exists env g secs t) = Raise (timeout_with scr st)"
      by (simp only: w res.case)
    then show "\<exists>scr st. fst (wait_until_exists env g secs t) = Raise (timeout_with scr st)"
      by blast
  next
    fix k e
    assume "k < Suc (2 * secs)"
      and "e_exists env (poll_trace t g k) g = Raise e
             \<and> exn_class e \<noteq> NoSuchElementException
             \<and> (\<forall>j<k. not_yet env g (poll_trace t g j))"
    with pl have "fst (poll_loop (Suc (2 * secs)) None None ?m t) = Raise e"
      by blast
    then show "fst (wait_until_exists env g secs t) = Raise e"
      by (simp only: w res.case)
  qed
qed

text \<open>On a page whose \<^verbatim>\<open>alt\<close> attributes do not change, the loop of
  \<^verbatim>\<open>scrape_categories\<close> collects the stripped non-empty ones, in the order of the images.\<close>

lemma collect_alt_texts_stable:
  assumes "\<And>tr el. e_get_attribute env tr el ''alt'' = Ret (alt el)"
  shows "collect_alt_texts env imgs names t
           = (Ret (names @ map strip (filter (\<lambda>a. a \<noteq> [])
                                (map (\<lambda>el. case alt el of None \<Rightarrow> [] | Some a \<Rightarrow> a) imgs))),
              t @ map (\<lambda>el. GetAttribute el ''alt'') imgs)"
proof (induction imgs arbitrary: names t)
  case Nil
  show ?case by (simp add: ret_def)
next
  case (Cons img imgs)
  show ?case
    by (cases "alt img") (simp_all add: get_attribute_def bind_def call_def assms Cons.IH)
qed

lemma presence_of_element_located_none:
  assumes "e_query env t sel = Ret []"
  shows "\<exists>e. fst (presence_of_element_located env sel t) = Raise e
             \<and> exn_class e = NoSuchElementException"
  using assms
  by (simp add: presence_of_element_located_def find_element_def bind_def call_def
        no_such_element_def split: prod.split)

lemma presence_of_all_elements_located_none:
  assumes "e_query env t sel = Ret []"
  shows "fst (presence_of_all_elements_located env sel t) = Ret None"
  using assms
  by (simp add: presence_of_all_elements_located_def find_elements_def bind_def call_def ret_def)

subsection \<open>Failures inside a primitive\<close>

text \<open>
  Claim C1. Whatever a primitive of the action library raises inside its body, be it a
  timeout, an element that is not found or an error of the driver (any exception deriving
  from \<^verbatim>\<open>Exception\<close>), the primitive returns: its result is the primitive's error text
  followed by \<^verbatim>\<open>str(e)\<close>, which is not empty, and nothing is raised to the caller.
\<close>

theorem primitive_failure_becomes_message:
  assumes "fst (tool_body env p t) = Raise e" and "is_Exception e"
  shows "fst (run_tool env p t) = Ret (error_prefix p @ str_of e)
         \<and> error_prefix p @ str_of e \<noteq> []"
  using assms by (simp add: run_tool_try_except try_except_catches error_prefix_nonempty)

text \<open>On the empty page the landmark of \<^verbatim>\<open>navigate_to_zepto\<close> never shows: the wait times
  out and the tool answers with its error message.\<close>

theorem primitive_failure_becomes_message_witness:
  "fst (tool_body env_blank NavigateToZepto []) = Raise timeout_exn
   \<and> is_Exception timeout_exn
   \<and> fst (run_tool env_blank NavigateToZepto [])
       = Ret (''Error navigating to Zepto: '' @ str_of timeout_exn)"
proof -
  have b: "fst (tool_body env_blank NavigateToZepto []) = Raise timeout_exn"
    by code_simp
  have x: "is_Exception timeout_exn"
    by (rule is_Exception_timeout)
  show ?thesis
    using primitive_failure_becomes_message [OF b x] b x by simp
qed

text \<open>
  Claim C5, amended. Every primitive catches \<^verbatim>\<open>Exception\<close>, and selenium's
  \<^verbatim>\<open>WebDriverException\<close> is one: an error of the driver raised inside a primitive is
  caught at the primitive's boundary like any other failure, and the primitive returns its
  error text followed by \<^verbatim>\<open>str(e)\<close>.
\<close>

theorem driver_error_is_caught:
  assumes "fst (tool_body env p t) = Raise e" and "exn_class e = WebDriverException"
  shows "fst (run_tool env p t) = Ret (error_prefix p @ str_of e)"
proof -
  have "is_Exception e"
    using assms(2) by (simp add: browser_failures_are_Exceptions)
  with assms(1) show ?thesis
    by (simp add: run_tool_try_except try_except_catches)
qed

theorem driver_error_is_caught_witness:
  "fst (tool_body env_crashed NavigateToZepto []) = Raise disconnected
   \<and> exn_class disconnected = WebDriverException
   \<and> fst (run_tool env_crashed NavigateToZepto [])
       = Ret (''Error navigating to Zepto: '' @ str_of disconnected)"
proof -
  have b: "fst (tool_body env_crashed NavigateToZepto []) = Raise disconnected"
    by code_simp
  have c: "exn_class disconnected = WebDriverException"
    by (simp add: disconnected_def)
  show ?thesis
    using driver_error_is_caught [OF b c] b c by simp
qed

text \<open>
  C5 as stated lets an error of the driver leave the primitive. With the session gone,
  loading the page raises \<^verbatim>\<open>WebDriverException\<close> inside \<^verbatim>\<open>navigate_to_zepto\<close>, and
  the primitive returns its error message: nothing is raised to the caller.
\<close>

theorem driver_error_propagates_counterexample:
  "exn_class disconnected = WebDriverException
   \<and> fst (navigate_to_zepto_body env_crashed []) = Raise disconnected
   \<and> fst (navigate_to_zepto env_crashed []) \<noteq> Raise disconnected
   \<and> navigate_to_zepto env_crashed []
       = (Ret (''Error navigating to Zepto: '' @ str_of disconnected),
          [GoTo ''https://www.zeptonow.com/''])"
  by code_simp

text \<open>
  Claim C7. When anything inside \<^verbatim>\<open>search_product\<close> fails, the result is the message
  \<^verbatim>\<open>Error searching for '<product name>': \<close> followed by \<^verbatim>\<open>str(e)\<close>; so the message
  contains \<^verbatim>\<open>Error searching for '<product name>'\<close>.
\<close>

theorem search_failure_message:
  assumes "fst (search_product_body env product_name t) = Raise e" and "is_Exception e"
  shows "\<exists>m. fst (search_product env product_name t) = Ret m
             \<and> m = ''Error searching for '' @ sq @ product_name @ sq @ '': '' @ str_of e
             \<and> sublist (''Error searching for '' @ sq @ product_name @ sq) m"
proof -
  let ?m = "''Error searching for '' @ sq @ product_name @ sq @ '': '' @ str_of e"
  have "fst (search_product env product_name t) = Ret ?m"
    using assms by (simp add: search_product_def try_except_catches)
  moreover have "prefix (''Error searching for '' @ sq @ product_name @ sq) ?m"
    by simp
  ultimately show ?thesis
    using prefix_imp_sublist by blast
qed

text \<open>Searching for milk on a page where the text never shows: the ten-second wait
  times out.\<close>

theorem search_failure_message_witness:
  "fst (search_product_body env_blank ''milk'' []) = Raise timeout_exn
   \<and> is_Exception timeout_exn
   \<and> (\<exists>m. fst (search_product env_blank ''milk'' []) = Ret m
          \<and> m = ''Error searching for '' @ sq @ ''milk'' @ sq @ '': '' @ str_of timeout_exn
          \<and> sublist (''Error searching for '' @ sq @ ''milk'' @ sq) m)"
proof -
  have b: "fst (search_product_body env_blank ''milk'' []) = Raise timeout_exn"
    by code_simp
  have x: "is_Exception timeout_exn"
    by (rule is_Exception_timeout)
  show ?thesis
    using search_failure_message [OF b x] b x by simp
qed

subsection \<open>The location prompt\<close>

text \<open>The library calls, unfolded.\<close>

lemmas call_defs = bind_def call_def ret_def raise_def go_to_def exists_def click_def
  write_text_def press_def sleep_def find_elements_def find_element_def is_displayed_def
  execute_script_def get_attribute_def

text \<open>
  Claim C6. \<^verbatim>\<open>handle_location_popup\<close> first sleeps two seconds, whatever follows. Then
  it asks for the button \<^verbatim>\<open>Detect my location\<close>, then for the button \<^verbatim>\<open>Allow\<close>, then
  for the text \<^verbatim>\<open>Enter your Pin Code\<close>, in this order, and runs the branch of the first
  that exists only (a click; a click; writing 400001 and clicking Confirm): the calls
  made are exactly those listed. When none of the three exists the result is
  \<^verbatim>\<open>No location popup detected.\<close>
\<close>

theorem handle_location_popup_branches:
  "(\<exists>rest. snd (handle_location_popup env t) = t @ Sleep 2000 # rest)
   \<and> (e_exists env (t @ [Sleep 2000]) (Button ''Detect my location'') = Ret True
        \<and> e_click env (t @ [Sleep 2000, Exists (Button ''Detect my location'')])
              (Button ''Detect my location'') = Ret ()
      \<longrightarrow> handle_location_popup env t
            = (Ret ''Clicked 'Detect my location'.'',
               t @ [Sleep 2000, Exists (Button ''Detect my location''),
                    Click (Button ''Detect my location'')]))
   \<and> (e_exists env (t @ [Sleep 2000]) (Button ''Detect my location'') = Ret False
        \<and> e_exists env (t @ [Sleep 2000, Exists (Button ''Detect my location'')])
              (Button ''Allow'') = Ret True
        \<and> e_click env (t @ [Sleep 2000, Exists (Button ''Detect my location''),
                              Exists (Button ''Allow'')]) (Button ''Allow'') = Ret ()
      \<longrightarrow> handle_location_popup env t
            = (Ret ''Clicked 'Allow' on location popup.'',
               t @ [Sleep 2000, Exists (Button ''Detect my location''),
                    Exists (Button ''Allow''), Click (Button ''Allow'')]))
   \<and> (e_exists env (t @ [Sleep 2000]) (Button ''Detect my location'') = Ret False
        \<and> e_exists env (t @ [Sleep 2000, Exists (Button ''Detect my location'')])
              (Button ''Allow'') = Ret False
        \<and> e_exists env (t @ [Sleep 2000, Exists (Button ''Detect my location''),
                               Exists (Button ''Allow'')]) (Text ''Enter your Pin Code'') = Ret True
        \<and> e_write env (t @ [Sleep 2000, Exists (Button ''Detect my location''),
                              Exists (Button ''Allow''), Exists (Text ''Enter your Pin Code'')])
              ''400001'' = Ret ()
        \<and> e_click env (t @ [Sleep 2000, Exists (Button ''Detect my location''),
                              Exists (Button ''Allow''), Exists (Text ''Enter your Pin Code''),
                              Write ''400001'']) (Str ''Confirm'') = Ret ()
      \<longrightarrow> handle_location_popup env t
            = (Ret ''Entered PIN and confirmed location.'',
               t @ [Sleep 2000, Exists (Button ''Detect my location''),
                    Exists (Button ''Allow''), Exists (Text ''Enter your Pin Code''),
                    Write ''400001'', Click (Str ''Confirm'')]))
   \<and> (e_exists env (t @ [Sleep 2000]) (Button ''Detect my location'') = Ret False
        \<and> e_exists env (t @ [Sleep 2000, Exists (Button ''Detect my location'')])
              (Button ''Allow'') = Ret False
        \<and> e_exists env (t @ [Sleep 2000, Exists (Button ''Detect my location''),
                               Exists (Button ''Allow'')]) (Text ''Enter your Pin Code'') = Ret False
      \<longrightarrow> handle_location_popup env t
            = (Ret ''No location popup detected.'',
               t @ [Sleep 2000, Exists (Button ''Detect my location''),
                    Exists (Button ''Allow''), Exists (Text ''Enter your Pin Code'')]))"
proof (intro conjI impI)
  show "\<exists>rest. snd (handle_location_popup env t) = t @ Sleep 2000 # rest"
    by (simp add: handle_location_popup_def handle_location_popup_body_def try_except_def
        call_defs split: res.split)
qed (simp_all add: handle_location_popup_def handle_location_popup_body_def try_except_def
        call_defs)

text \<open>The four pages: one prompt each, and the empty page.\<close>

theorem handle_location_popup_branches_witness:
  "handle_location_popup env_detect []
     = (Ret ''Clicked 'Detect my location'.'',
        [Sleep 2000, Exists (Button ''Detect my location''),
         Click (Button ''Detect my location'')])
   \<and> handle_location_popup env_allow []
     = (Ret ''Clicked 'Allow' on location popup.'',
        [Sleep 2000, Exists (Button ''Detect my location''), Exists (Button ''Allow''),
         Click (Button ''Allow'')])
   \<and> handle_location_popup env_pin []
     = (Ret ''Entered PIN and confirmed location.'',
        [Sleep 2000, Exists (Button ''Detect my location''), Exists (Button ''Allow''),
         Exists (Text ''Enter your Pin Code''), Write ''400001'', Click (Str ''Confirm'')])
   \<and> handle_location_popup env_blank []
     = (Ret ''No location popup detected.'',
        [Sleep 2000, Exists (Button ''Detect my location''), Exists (Button ''Allow''),
         Exists (Text ''Enter your Pin Code'')])"
  using handle_location_popup_branches [of env_detect "[]"]
        handle_location_popup_branches [of env_allow "[]"]
        handle_location_popup_branches [of env_pin "[]"]
        handle_location_popup_branches [of env_blank "[]"]
  by (simp add: env_detect_def env_allow_def env_pin_def env_blank_def)

subsection \<open>Observation capture\<close>



text \<open>Without a driver the screenshot is skipped, and reading \<^verbatim>\<open>driver.current_url\<close>
  raises: the callback does not return and the step's text is left as it was.\<close>

lemma save_screenshot_no_driver:
  assumes "\<not> e_get_driver env (t @ [Sleep 1000])"
  shows "save_screenshot env log t
           = (Raise none_has_no_current_url, log, t @ [Sleep 1000, GetDriver])"
  using assms
  by (simp add: save_screenshot_def bind_def sleep_def get_driver_def call_def ret_def
        raise_def current_url_def)

text \<open>
  Claim C3, on the scripts. The claim has the capture complete without a driver, with the
  URL attached. The callback guards the screenshot with \<^verbatim>\<open>if driver:\<close> and then reads
  \<^verbatim>\<open>driver.current_url\<close> outside the guard: with \<^verbatim>\<open>helium.get_driver()\<close> giving
  \<^verbatim>\<open>None\<close> it raises \<^verbatim>\<open>AttributeError\<close>, and no URL is attached.
\<close>

theorem save_screenshot_without_driver_raises:
  "save_screenshot env_no_driver
       \<lparr>observations = Some ''Popups closed.'', observations_images = None\<rparr> []
     = (Raise none_has_no_current_url,
        \<lparr>observations = Some ''Popups closed.'', observations_images = None\<rparr>,
        [Sleep 1000, GetDriver])"
  by code_simp

subsection \<open>Navigation\<close>

text \<open>
  Claim C9, amended. \<^verbatim>\<open>navigate_to_zepto\<close> takes no argument. Its first call loads the
  fixed address \<^verbatim>\<open>https://www.zeptonow.com/\<close>; it then waits up to ten seconds, with a try
  every half second (21 tries), for the text \<^verbatim>\<open>Search for\<close> to exist. On any browser,
  the result is \<^verbatim>\<open>Successfully navigated to Zepto.\<close> exactly when the load returned and
  the text was found within those tries. It is a failure message otherwise: with the
  text of the \<^verbatim>\<open>TimeoutException\<close> when no try found the text, with \<^verbatim>\<open>str(e)\<close> when
  the load raised \<open>e\<close> (nothing is then waited for), and with \<^verbatim>\<open>str(e)\<close> when a try
  raised an \<open>e\<close> that the wait does not ignore.
\<close>

theorem navigate_to_zepto_outcome:
  "(\<exists>rest. snd (navigate_to_zepto env t) = t @ GoTo ''https://www.zeptonow.com/'' # rest)
   \<and> (fst (navigate_to_zepto env t) = Ret ''Successfully navigated to Zepto.''
        \<longleftrightarrow> e_go_to env t ''https://www.zeptonow.com/'' = Ret ()
            \<and> found_within env (Text ''Search for'')
                  (t @ [GoTo ''https://www.zeptonow.com/'']) 21)
   \<and> (e_go_to env t ''https://www.zeptonow.com/'' = Ret ()
        \<and> (\<forall>j<21. not_yet env (Text ''Search for'')
                      (poll_trace (t @ [GoTo ''https://www.zeptonow.com/''])
                         (Text ''Search for'') j))
      \<longrightarrow> (\<exists>scr st. fst (navigate_to_zepto env t)
                        = Ret (''Error navigating to Zepto: '' @ str_of (timeout_with scr st))))
   \<and> (\<forall>e. e_go_to env t ''https://www.zeptonow.com/'' = Raise e \<and> is_Exception e \<longrightarrow>
          navigate_to_zepto env t
            = (Ret (''Error navigating to Zepto: '' @ str_of e),
               t @ [GoTo ''https://www.zeptonow.com/'']))
   \<and> (\<forall>k<21. \<forall>e.
          e_go_to env t ''https://www.zeptonow.com/'' = Ret ()
          \<and> e_exists env (poll_trace (t @ [GoTo ''https://www.zeptonow.com/''])
                             (Text ''Search for'') k) (Text ''Search for'') = Raise e
          \<and> exn_class e \<noteq> NoSuchElementException \<and> is_Exception e
          \<and> (\<forall>j<k. not_yet env (Text ''Search for'')
                       (poll_trace (t @ [GoTo ''https://www.zeptonow.com/''])
                          (Text ''Search for'') j))
        \<longrightarrow> fst (navigate_to_zepto env t)
              = Ret (''Error navigating to Zepto: '' @ str_of e))"
proof -
  let ?url = "''https://www.zeptonow.com/''"
  let ?g = "Text ''Search for''"
  let ?ok = "''Successfully navigated to Zepto.''"
  let ?err = "\<lambda>e. ''Error navigating to Zepto: '' @ str_of e"
  let ?w = "wait_until_exists env ?g 10"
  have tries: "Suc (2 * 10) = (21::nat)"
    by simp
  note wait = wait_until_exists_outcome [of env ?g 10 "t @ [GoTo ?url]", unfolded tries]
  have body: "navigate_to_zepto_body env t
                = (case e_go_to env t ?url of
                     Ret _ \<Rightarrow> bind ?w (\<lambda>_. ret ?ok) (t @ [GoTo ?url])
                   | Raise e \<Rightarrow> (Raise e, t @ [GoTo ?url]))"
    by (simp add: navigate_to_zepto_body_def bind_def go_to_def call_def split: res.split)
  have fst_body: "e_go_to env t ?url = Ret () \<Longrightarrow>
      fst (navigate_to_zepto_body env t)
        = (case fst (?w (t @ [GoTo ?url])) of Ret _ \<Rightarrow> Ret ?ok | Raise e \<Rightarrow> Raise e)"
    by (simp add: body fst_bind_ret)
  have nav: "\<And>r. fst (navigate_to_zepto_body env t) = r \<Longrightarrow>
      fst (navigate_to_zepto env t)
        = (case r of Ret v \<Rightarrow> Ret v
           | Raise e \<Rightarrow> if is_Exception e then Ret (?err e) else Raise e)"
    by (cases "navigate_to_zepto_body env t")
       (auto simp: navigate_to_zepto_def try_except_def split: res.split)
  have c1: "\<exists>rest. snd (navigate_to_zepto env t) = t @ GoTo ?url # rest"
  proof (cases "e_go_to env t ?url")
    case (Ret u)
    obtain rest where "snd (?w (t @ [GoTo ?url])) = (t @ [GoTo ?url]) @ rest"
      using wait_until_exists_extends [of "t @ [GoTo ?url]" env ?g 10]
      by (auto simp: prefix_def)
    then show ?thesis
      using Ret by (simp add: navigate_to_zepto_def snd_try_except body snd_bind_ret)
  next
    case (Raise e)
    then show ?thesis
      by (simp add: navigate_to_zepto_def snd_try_except body)
  qed
  have c2: "fst (navigate_to_zepto env t) = Ret ?ok
              \<longleftrightarrow> e_go_to env t ?url = Ret () \<and> found_within env ?g (t @ [GoTo ?url]) 21"
  proof (cases "e_go_to env t ?url")
    case (Ret u)
    then have go: "e_go_to env t ?url = Ret ()" by simp
    have "fst (navigate_to_zepto env t) = Ret ?ok \<longleftrightarrow> fst (?w (t @ [GoTo ?url])) = Ret ()"
      using nav [OF fst_body [OF go]]
      by (cases "fst (?w (t @ [GoTo ?url]))") (auto split: if_splits)
    then show ?thesis
      using wait go by blast
  next
    case (Raise e)
    then have "fst (navigate_to_zepto_body env t) = Raise e"
      by (simp add: body)
    from nav [OF this] Raise show ?thesis
      by (auto split: if_splits)
  qed
  have c3: "e_go_to env t ?url = Ret ()
        \<and> (\<forall>j<21. not_yet env ?g (poll_trace (t @ [GoTo ?url]) ?g j))
      \<longrightarrow> (\<exists>scr st. fst (navigate_to_zepto env t) = Ret (?err (timeout_with scr st)))"
  proof
    assume a: "e_go_to env t ?url = Ret ()
        \<and> (\<forall>j<21. not_yet env ?g (poll_trace (t @ [GoTo ?url]) ?g j))"
    then obtain scr st where "fst (?w (t @ [GoTo ?url])) = Raise (timeout_with scr st)"
      using wait by blast
    then have "fst (navigate_to_zepto_body env t) = Raise (timeout_with scr st)"
      using a by (simp add: fst_body)
    from nav [OF this] show "\<exists>scr st. fst (navigate_to_zepto env t) = Ret (?err (timeout_with scr st))"
      by (auto simp: is_Exception_timeout_with)
  qed
  have c4: "\<forall>e. e_go_to env t ?url = Raise e \<and> is_Exception e \<longrightarrow>
          navigate_to_zepto env t = (Ret (?err e), t @ [GoTo ?url])"
    by (simp add: navigate_to_zepto_def try_except_def body)
  have c5: "\<forall>k<21. \<forall>e.
          e_go_to env t ?url = Ret ()
          \<and> e_exists env (poll_trace (t @ [GoTo ?url]) ?g k) ?g = Raise e
          \<and> exn_class e \<noteq> NoSuchElementException \<and> is_Exception e
          \<and> (\<forall>j<k. not_yet env ?g (poll_trace (t @ [GoTo ?url]) ?g j))
        \<longrightarrow> fst (navigate_to_zepto env t) = Ret (?err e)"
  proof (intro allI impI)
    fix k e
    assume k: "k < 21"
      and a: "e_go_to env t ?url = Ret ()
          \<and> e_exists env (poll_trace (t @ [GoTo ?url]) ?g k) ?g = Raise e
          \<and> exn_class e \<noteq> NoSuchElementException \<and> is_Exception e
          \<and> (\<forall>j<k. not_yet env ?g (poll_trace (t @ [GoTo ?url]) ?g j))"
    then have "fst (?w (t @ [GoTo ?url])) = Raise e"
      using wait by blast
    then have "fst (navigate_to_zepto_body env t) = Raise e"
      using a by (simp add: fst_body)
    from nav [OF this] a show "fst (navigate_to_zepto env t) = Ret (?err e)"
      by simp
  qed
  show ?thesis
    using c1 c2 c3 c4 c5 by (intro conjI)
qed

text \<open>The home page whose landmark shows at the third try; the page on which the first
  try raises the ignored exception and the second finds the landmark; the empty page;
  the session that is gone; the page on which asking for the landmark raises an error of
  the driver.\<close>

theorem navigate_to_zepto_outcome_witness:
  "found_within env_home (Text ''Search for'') ([] @ [GoTo ''https://www.zeptonow.com/'']) 21
   \<and> fst (navigate_to_zepto env_home []) = Ret ''Successfully navigated to Zepto.''
   \<and> found_within env_flaky (Text ''Search for'') ([] @ [GoTo ''https://www.zeptonow.com/'']) 21
   \<and> fst (navigate_to_zepto env_flaky []) = Ret ''Successfully navigated to Zepto.''
   \<and> (\<exists>scr st. fst (navigate_to_zepto env_blank [])
                   = Ret (''Error navigating to Zepto: '' @ str_of (timeout_with scr st)))
   \<and> navigate_to_zepto env_crashed []
       = (Ret (''Error navigating to Zepto: '' @ str_of disconnected),
          [GoTo ''https://www.zeptonow.com/''])
   \<and> fst (navigate_to_zepto env_stale []) = Ret (''Error navigating to Zepto: '' @ str_of stale)"
proof -
  let ?url = "''https://www.zeptonow.com/''"
  let ?g = "Text ''Search for''"
  have len: "\<And>k. length (poll_trace ([] @ [GoTo ?url]) ?g k) = 1 + 2 * k"
    by (simp add: length_concat sum_list_replicate)
  have home: "found_within env_home ?g ([] @ [GoTo ?url]) 21"
  proof (intro exI [of _ 2] conjI allI impI)
    show "(2::nat) < 21" by simp
    show "e_exists env_home (poll_trace ([] @ [GoTo ?url]) ?g 2) ?g = Ret True"
      using len [of 2] by (simp add: env_home_def env_blank_def)
    fix j :: nat
    assume "j < 2"
    then have "length (poll_trace ([] @ [GoTo ?url]) ?g j) < 4"
      unfolding len by simp
    then show "not_yet env_home ?g (poll_trace ([] @ [GoTo ?url]) ?g j)"
      by (simp add: env_home_def env_blank_def)
  qed
  have flaky: "found_within env_flaky ?g ([] @ [GoTo ?url]) 21"
  proof (intro exI [of _ 1] conjI allI impI)
    show "(1::nat) < 21" by simp
    show "e_exists env_flaky (poll_trace ([] @ [GoTo ?url]) ?g 1) ?g = Ret True"
      by (simp add: env_flaky_def env_blank_def)
    fix j :: nat
    assume "j < 1"
    then show "not_yet env_flaky ?g (poll_trace ([] @ [GoTo ?url]) ?g j)"
      by (simp add: env_flaky_def env_blank_def)
  qed
  have go: "\<And>e. e \<in> {env_home, env_flaky, env_blank, env_stale}
              \<Longrightarrow> e_go_to e [] ?url = Ret ()"
    by (auto simp: env_home_def env_flaky_def env_stale_def env_blank_def)
  have blank: "\<forall>j<21. not_yet env_blank ?g (poll_trace ([] @ [GoTo ?url]) ?g j)"
    by (simp add: env_blank_def)
  have crashed: "e_go_to env_crashed [] ?url = Raise disconnected \<and> is_Exception disconnected"
    by (simp add: env_crashed_def env_blank_def disconnected_def)
  have stale: "e_exists env_stale (poll_trace ([] @ [GoTo ?url]) ?g 0) ?g = Raise stale
               \<and> exn_class stale \<noteq> NoSuchElementException \<and> is_Exception stale
               \<and> (\<forall>j<0. not_yet env_stale ?g (poll_trace ([] @ [GoTo ?url]) ?g j))"
    by (simp add: env_stale_def env_blank_def stale_def)
  have "fst (navigate_to_zepto env_home []) = Ret ''Successfully navigated to Zepto.''"
    using navigate_to_zepto_outcome [of env_home "[]"] home go [of env_home] by blast
  moreover have "fst (navigate_to_zepto env_flaky []) = Ret ''Successfully navigated to Zepto.''"
    using navigate_to_zepto_outcome [of env_flaky "[]"] flaky go [of env_flaky] by blast
  moreover have "\<exists>scr st. fst (navigate_to_zepto env_blank [])
                   = Ret (''Error navigating to Zepto: '' @ str_of (timeout_with scr st))"
    using navigate_to_zepto_outcome [of env_blank "[]"] blank go [of env_blank] by blast
  moreover have "navigate_to_zepto env_crashed []
       = (Ret (''Error navigating to Zepto: '' @ str_of disconnected), [] @ [GoTo ?url])"
    using navigate_to_zepto_outcome [of env_crashed "[]"] crashed by blast
  moreover have "fst (navigate_to_zepto env_stale [])
                   = Ret (''Error navigating to Zepto: '' @ str_of stale)"
  proof -
    have "(0::nat) < 21" by simp
    then show ?thesis
      using navigate_to_zepto_outcome [of env_stale "[]"] stale go [of env_stale] by blast
  qed
  ultimately show ?thesis
    using home flaky by simp
qed

text \<open>
  C9 as stated has the primitive take the address to load. It has no such argument: an
  address other than the fixed one, \<^verbatim>\<open>https://example.org/\<close> say, is never loaded,
  on whatever page.
\<close>

theorem navigate_loads_given_url_counterexample:
  "GoTo ''https://example.org/'' \<notin> set (snd (navigate_to_zepto env_home []))
   \<and> GoTo ''https://www.zeptonow.com/'' \<in> set (snd (navigate_to_zepto env_home []))"
  by code_simp

subsection \<open>Scraping the categories\<close>

text \<open>When the wait of \<^verbatim>\<open>scrape_categories\<close> has found an image, on a page whose
  \<^verbatim>\<open>alt\<close> attributes can be read, the result follows the list of images then read.\<close>

lemma scrape_categories_after_wait:
  assumes "until 3000 (presence_of_element_located env category_selector) t = (Ret el, t1)"
    and "e_query env t1 category_selector = Ret imgs"
    and "\<And>tr i. e_get_attribute env tr i ''alt'' = Ret (alt i)"
  shows "fst (scrape_categories env t)
           = Ret (if imgs = [] then ''No category images found. Possibly incorrect selector.''
                  else if \<exists>i\<in>set imgs. \<exists>a. alt i = Some a \<and> a \<noteq> []
                  then ''Categories found: ''
                         @ join '', '' (map strip (filter (\<lambda>a. a \<noteq> [])
                              (map (\<lambda>i. case alt i of None \<Rightarrow> [] | Some a \<Rightarrow> a) imgs)))
                  else ''No alt text found in category images.'')"
proof -
  let ?texts = "map (\<lambda>i. case alt i of None \<Rightarrow> [] | Some a \<Rightarrow> a) imgs"
  let ?names = "map strip (filter (\<lambda>a. a \<noteq> []) ?texts)"
  have collect: "\<And>t'. collect_alt_texts env imgs [] t'
                        = (Ret ?names, t' @ map (\<lambda>el. GetAttribute el ''alt'') imgs)"
    using collect_alt_texts_stable [of env alt imgs "[]"] assms(3) by simp
  have some: "(?names \<noteq> []) = (\<exists>i\<in>set imgs. \<exists>a. alt i = Some a \<and> a \<noteq> [])"
    by (auto simp: filter_empty_conv split: option.splits)
  have "fst (scrape_categories_body env t)
          = Ret (if imgs = [] then ''No category images found. Possibly incorrect selector.''
                 else if ?names \<noteq> [] then ''Categories found: '' @ join '', '' ?names
                 else ''No alt text found in category images.'')"
    using assms(1,2)
    by (simp add: scrape_categories_body_def bind_def find_elements_def call_def
        ret_def collect)
  then show ?thesis
    unfolding some [symmetric]
    by (simp add: scrape_categories_def try_except_returns)
qed

text \<open>On a page where no image ever matches the selector the wait times out, whatever
  the driver reports at each try.\<close>

lemma scrape_categories_no_match:
  assumes "\<And>tr. e_query env tr category_selector = Ret []"
  shows "\<exists>scr st. fst (scrape_categories env t)
                    = Ret (''Error scraping categories: '' @ str_of (timeout_with scr st))"
proof -
  obtain scr st
    where "fst (until 3000 (presence_of_element_located env category_selector) t)
             = Raise (timeout_with scr st)"
    unfolding until_def
    using poll_loop_never [of "presence_of_element_located env category_selector"]
      presence_of_element_located_none [OF assms]
    by blast
  then have "fst (scrape_categories_body env t) = Raise (timeout_with scr st)"
    unfolding scrape_categories_body_def by (rule fst_bind_Raise)
  then have "fst (scrape_categories env t)
               = Ret (''Error scraping categories: '' @ str_of (timeout_with scr st))"
    by (simp add: scrape_categories_def try_except_catches is_Exception_timeout_with)
  then show ?thesis by blast
qed

text \<open>
  Claim C10, on the script. The claim gives
  \<^verbatim>\<open>No category images found. Possibly incorrect selector.\<close> when no image matches the
  selector, and the script has that branch. It is not reached: the wait before it raises
  \<^verbatim>\<open>TimeoutException\<close> when nothing matches. On the empty page, where each try reports
  the missing element with one line of stack trace, the result is
  \<^verbatim>\<open>Error scraping categories: \<close> followed by the text of the timeout, which carries that
  stack trace.
\<close>

theorem scrape_categories_without_images_fails:
  "e_query env_blank [] category_selector = Ret []
   \<and> fst (scrape_categories env_blank [])
       = Ret (''Error scraping categories: Message: '' @ [CHR 0x0A]
              @ ''Stacktrace:'' @ [CHR 0x0A] @ ''#0 0x55d1c0a4e4e3 <unknown>'')
   \<and> fst (scrape_categories env_blank [])
       \<noteq> Ret ''No category images found. Possibly incorrect selector.''"
  by code_simp

text \<open>The two other cases of the claim, and the branch for no image when the image
  goes away after the wait.\<close>

lemma scrape_categories_examples:
  "fst (scrape_categories env_categories []) = Ret ''Categories found: Fruits, Dairy''
   \<and> fst (scrape_categories env_no_alt []) = Ret ''No alt text found in category images.''
   \<and> fst (scrape_categories env_vanishing [])
       = Ret ''No category images found. Possibly incorrect selector.''"
  by code_simp

subsection \<open>Closing overlays\<close>

text \<open>\<^verbatim>\<open>close_popups\<close> waits for each selector with
  \<^verbatim>\<open>presence_of_all_elements_located\<close>, whose empty list is falsy: when nothing matches
  the first selector the wait times out and the \<^verbatim>\<open>except\<close> branch answers.\<close>

lemma close_popups_no_match:
  assumes "\<And>tr. e_query env tr ''button[class*='close']'' = Ret []"
  shows "fst (close_popups env t) = Ret (''Error closing popups: '' @ str_of timeout_exn)"
proof -
  have "fst (until 1000 (presence_of_all_elements_located env ''button[class*='close']'') t)
          = Raise timeout_exn"
    unfolding until_def timeout_exn_def
    by (rule poll_loop_all_falsy) (simp add: presence_of_all_elements_located_none assms)
  then have "fst (close_selectors env modal_selectors t) = Raise timeout_exn"
    unfolding modal_selectors_def close_selectors.simps by (rule fst_bind_Raise)
  then have "fst (close_popups_body env t) = Raise timeout_exn"
    unfolding close_popups_body_def by (rule fst_bind_Raise)
  then show ?thesis
    by (simp add: close_popups_def try_except_catches is_Exception_timeout)
qed

text \<open>
  Claim C2, on the scripts. The claim has \<^verbatim>\<open>close_popups\<close> succeed, with nothing
  closed, on a page where no element matches the overlay selectors. On the empty page
  the script polls the first selector for a second, three times, and returns
  \<^verbatim>\<open>Error closing popups: \<close> with the timeout's text; it does not return
  \<^verbatim>\<open>Popups closed.\<close>
\<close>

theorem close_popups_without_overlays_fails:
  "close_popups env_blank []
     = (Ret (''Error closing popups: '' @ str_of timeout_exn),
        [FindElements ''button[class*='close']'', Sleep 500,
         FindElements ''button[class*='close']'', Sleep 500,
         FindElements ''button[class*='close']''])
   \<and> fst (close_popups env_blank []) \<noteq> Ret ''Popups closed.''"
  by code_simp

subsection \<open>The step budget\<close>

text \<open>A run never starts more steps than its budget, or than it was handed.\<close>

lemma control_loop_bound:
  "steps_started (control_loop env decide max_steps history t) \<le> max max_steps (length history)"
proof (induction env decide max_steps history t rule: control_loop.induct)
  case (1 env decide max_steps history t)
  show ?case
  proof (cases "max_steps \<le> length history")
    case True
    then show ?thesis by simp
  next
    case False
    show ?thesis
    proof (cases "decide history")
      case (FinalAnswer answer)
      with False show ?thesis by simp
    next
      case (Invoke p)
      obtain r t1 where run: "run_tool env p t = (r, t1)"
        by (cases "run_tool env p t")
      show ?thesis
      proof (cases r)
        case (Raise e)
        with False Invoke run show ?thesis by simp
      next
        case (Ret message)
        obtain r2 log t2 where cap: "save_screenshot env
              \<lparr>observations = Some message, observations_images = None\<rparr> t1 = (r2, log, t2)"
          by (cases "save_screenshot env
              \<lparr>observations = Some message, observations_images = None\<rparr> t1") auto
        show ?thesis
        proof (cases r2)
          case (Raise e)
          with False Invoke run Ret cap show ?thesis by simp
        next
          case (Ret u)
          note r2 = this
          have "steps_started (control_loop env decide max_steps
                  (history @ [\<lparr>chosen = p, outcome = message, observation = log,
                                index = length history\<rparr>]) t2)
                \<le> max max_steps (length (history @ [\<lparr>chosen = p, outcome = message,
                                      observation = log, index = length history\<rparr>]))"
            by (rule "1.IH" [OF False Invoke run [symmetric] \<open>r = Ret message\<close>
                               cap [symmetric] r2 refl])
          with False Invoke run \<open>r = Ret message\<close> cap r2 show ?thesis
            by simp
        qed
      qed
    qed
  qed
qed

text \<open>
  Claim C4. Whatever the Decision Function answers, and so also when it never gives a
  final answer, a run of the shopping flow starts at most 20 steps and a run of the
  scraping flow at most 10, the values of \<^verbatim>\<open>max_steps\<close> in the two scripts; the loop
  is a total function, so each run ends.
\<close>

theorem step_budget:
  "steps_started (agent_run env decide) \<le> 20 \<and> steps_started (zepto_run env decide) \<le> 10"
  using control_loop_bound [of env decide agent_max_steps "[]" "[]"]
        control_loop_bound [of env decide zepto_max_steps "[]" "[]"]
  by (simp add: agent_run_def zepto_run_def agent_max_steps_def zepto_max_steps_def)

text \<open>With a Decision Function that never gives a final answer the budget is used up:
  the run is aborted with exactly \<open>max_steps\<close> steps in its history, unless an error
  escaped before.\<close>

lemma control_loop_never_final:
  assumes "\<And>h. \<exists>p. decide h = Invoke p" and "length history \<le> max_steps"
  shows "(\<exists>m h' t'. control_loop env decide max_steps history t = (Aborted m, h', t')
                   \<and> length h' = max_steps)
         \<or> (\<exists>e h' t'. control_loop env decide max_steps history t = (Fatal e, h', t')
                   \<and> length h' < max_steps)"
  using assms
proof (induction env decide max_steps history t rule: control_loop.induct)
  case (1 env decide max_steps history t)
  show ?case
  proof (cases "max_steps \<le> length history")
    case True
    with "1.prems" show ?thesis by simp
  next
    case False
    obtain p where Invoke: "decide history = Invoke p"
      using "1.prems"(1) by blast
    obtain r t1 where run: "run_tool env p t = (r, t1)"
      by (cases "run_tool env p t")
    show ?thesis
    proof (cases r)
      case (Raise e)
      with False Invoke run show ?thesis by simp
    next
      case (Ret message)
      obtain r2 log t2 where cap: "save_screenshot env
            \<lparr>observations = Some message, observations_images = None\<rparr> t1 = (r2, log, t2)"
        by (cases "save_screenshot env
            \<lparr>observations = Some message, observations_images = None\<rparr> t1") auto
      show ?thesis
      proof (cases r2)
        case (Raise e)
        with False Invoke run Ret cap show ?thesis by simp
      next
        case (Ret u)
        note r2 = this
        have "length (history @ [\<lparr>chosen = p, outcome = message, observation = log,
                                index = length history\<rparr>]) \<le> max_steps"
          using False by simp
        from "1.IH" [OF False Invoke run [symmetric] \<open>r = Ret message\<close> cap [symmetric] r2
                       refl "1.prems"(1) this]
        show ?thesis
          using False Invoke run \<open>r = Ret message\<close> cap r2 by simp
      qed
    qed
  qed
qed

end
